theory Spec2Isabelle
  imports Complex_Main
begin

section \<open>Values shared by the modules\<close>

text \<open>
  The enumerations of \<^verbatim>\<open>models.py\<close>. Each constructor keeps the Python member name;
  the \<open>.value\<close> strings are given by the \<open>_value\<close> functions.
\<close>

datatype ErrorCategory =
    TIMEOUT_ERROR | HTTP_ERROR | SSL_ERROR | NETWORK_ERROR
  | BROWSER_ERROR | PARSE_ERROR | DNS_ERROR | UNKNOWN_ERROR

datatype RenderingType = SERVER_SIDE_RENDERED | CLIENT_SIDE_RENDERED | NOT_ACCESSIBLE

datatype ProcessingStatus = SUCCESS | FAILED | RETRYING

fun ErrorCategory_value :: "ErrorCategory \<Rightarrow> string" where
  "ErrorCategory_value TIMEOUT_ERROR = ''TimeoutError''"
| "ErrorCategory_value HTTP_ERROR = ''HTTPError''"
| "ErrorCategory_value SSL_ERROR = ''SSLError''"
| "ErrorCategory_value NETWORK_ERROR = ''NetworkError''"
| "ErrorCategory_value BROWSER_ERROR = ''BrowserError''"
| "ErrorCategory_value PARSE_ERROR = ''ParseError''"
| "ErrorCategory_value DNS_ERROR = ''DNSError''"
| "ErrorCategory_value UNKNOWN_ERROR = ''UnknownError''"

fun RenderingType_value :: "RenderingType \<Rightarrow> string" where
  "RenderingType_value SERVER_SIDE_RENDERED = ''Server-Side Rendered''"
| "RenderingType_value CLIENT_SIDE_RENDERED = ''Client-Side Rendered''"
| "RenderingType_value NOT_ACCESSIBLE = ''Not Accessible''"

fun ProcessingStatus_value :: "ProcessingStatus \<Rightarrow> string" where
  "ProcessingStatus_value SUCCESS = ''Success''"
| "ProcessingStatus_value FAILED = ''Failed''"
| "ProcessingStatus_value RETRYING = ''Retrying''"

text \<open>
  A Python value as far as the detector looks at it: \<open>None\<close>, a string, or some other
  object (an integer stands for those).
\<close>

datatype pyval = PyNone | PyStr string | PyInt int

subsection \<open>Strings\<close>

text \<open>
  Messages are character lists read as ASCII text. \<open>lower\<close> is \<^verbatim>\<open>str.lower\<close>,
  \<open>py_in sub s\<close> is Python's \<^verbatim>\<open>sub in s\<close> on strings.
\<close>

definition ord :: "char \<Rightarrow> nat" where
  "ord c = of_char c"

text \<open>An upper-case letter has bit 5 clear; adding 32 sets it.\<close>

fun lower_char :: "char \<Rightarrow> char" where
  "lower_char (Char b0 b1 b2 b3 b4 b5 b6 b7) =
     (if 65 \<le> ord (Char b0 b1 b2 b3 b4 b5 b6 b7) \<and> ord (Char b0 b1 b2 b3 b4 b5 b6 b7) \<le> 90
      then Char b0 b1 b2 b3 b4 True b6 b7
      else Char b0 b1 b2 b3 b4 b5 b6 b7)"

definition lower :: "string \<Rightarrow> string" where
  "lower s = map lower_char s"

fun startswith :: "string \<Rightarrow> string \<Rightarrow> bool" where
  "startswith s [] = True"
| "startswith [] (p # ps) = False"
| "startswith (c # cs) (p # ps) = (c = p \<and> startswith cs ps)"

fun py_in :: "string \<Rightarrow> string \<Rightarrow> bool" where
  "py_in sub [] = (sub = [])"
| "py_in sub (c # cs) = (startswith (c # cs) sub \<or> py_in sub cs)"

definition any_in :: "string list \<Rightarrow> string \<Rightarrow> bool" where
  "any_in indicators s = list_ex (\<lambda>indicator. py_in indicator s) indicators"

definition is_digit :: "char \<Rightarrow> bool" where
  "is_digit c = (48 \<le> ord c \<and> ord c \<le> 57)"

definition is_word :: "char \<Rightarrow> bool" where
  "is_word c =
     (is_digit c \<or> (65 \<le> ord c \<and> ord c \<le> 90) \<or> (97 \<le> ord c \<and> ord c \<le> 122)
      \<or> c = CHR ''_'')"

text \<open>
  \<^verbatim>\<open>re.search(r'\b[4-5]\d{2}\b', s)\<close>: some position holds a \<open>4\<close> or \<open>5\<close> followed by
  two digits, with no word character right before or right after the three. The flag
  says whether the character before the current position is a word character.
\<close>

fun status_code_scan :: "bool \<Rightarrow> string \<Rightarrow> bool" where
  "status_code_scan prev_word (a # b # c # rest) =
     ((\<not> prev_word \<and> (a = CHR ''4'' \<or> a = CHR ''5'') \<and> is_digit b \<and> is_digit c
        \<and> (case rest of [] \<Rightarrow> True | d # _ \<Rightarrow> \<not> is_word d))
      \<or> status_code_scan (is_word a) (b # c # rest))"
| "status_code_scan prev_word s = False"

definition status_code_search :: "string \<Rightarrow> bool" where
  "status_code_search s = status_code_scan False s"

subsection \<open>Exceptions\<close>

text \<open>
  The classes that the \<^verbatim>\<open>isinstance\<close> tests of \<^verbatim>\<open>error_handler.py\<close> name, and the two
  built-in classes that the detector raises itself. An exception value carries the
  classes it is an instance of, the name of its type, its message (\<^verbatim>\<open>str(e)\<close>) and
  the \<^verbatim>\<open>response\<close> attribute if it has one.
\<close>

datatype exn_class =
    Timeout | TimeoutException | socket_timeout
  | HTTPError
  | ssl_SSLError | RequestsSSLError | Urllib3SSLError
  | ConnectionError | socket_error
  | WebDriverException | NoSuchElementException | ElementNotInteractableException
  | InvalidSessionIdException | SessionNotCreatedException | UnexpectedAlertPresentException
  | ValueError | UnicodeError | UnicodeDecodeError
  | socket_gaierror
  | RuntimeError | TypeError

record response =
  resp_url :: string
  status_code :: int
  reason :: string
  resp_text :: string

record exn =
  classes :: "exn_class list"
  type_name :: string
  message :: string
  exn_response :: "response option"

definition isinstance :: "exn \<Rightarrow> exn_class list \<Rightarrow> bool" where
  "isinstance e cs = list_ex (\<lambda>c. c \<in> set (classes e)) cs"

section \<open>Failure classifier (\<^verbatim>\<open>error_handler.py\<close>)\<close>

text \<open>
  The handler object holds its logger; the model keeps what was logged as a list of
  entries. \<^verbatim>\<open>non_retryable_patterns\<close> is set by the constructor and read nowhere.
\<close>

datatype log_entry =
    Unknown_error_type string string
  | Logged_error string ErrorCategory string

record ErrorHandler =
  logged :: "log_entry list"

definition is_timeout_error :: "exn \<Rightarrow> string \<Rightarrow> bool" where
  "is_timeout_error exception error_message =
     (isinstance exception [Timeout, TimeoutException, socket_timeout]
      \<or> any_in [''timeout'', ''timed out'', ''read timeout'', ''connection timeout'',
                 ''request timeout'', ''response timeout''] error_message)"

definition is_http_error :: "exn \<Rightarrow> string \<Rightarrow> bool" where
  "is_http_error exception error_message =
     (isinstance exception [HTTPError, HTTPError]
      \<or> any_in [''http error'', ''status code'', ''404'', ''403'', ''500'', ''502'', ''503'',
                 ''504'', ''bad request'', ''unauthorized'', ''forbidden'', ''not found'',
                 ''internal server error'', ''bad gateway'', ''service unavailable'']
           error_message
      \<or> status_code_search error_message)"

definition is_ssl_error :: "exn \<Rightarrow> string \<Rightarrow> bool" where
  "is_ssl_error exception error_message =
     (isinstance exception [ssl_SSLError, RequestsSSLError, Urllib3SSLError]
      \<or> any_in [''ssl'', ''certificate'', ''tls'', ''handshake'', ''verify failed'',
                 ''certificate_verify_failed'', ''ssl certificate problem'',
                 ''certificate has expired'', ''hostname doesn'' @ [CHR 39] @ ''t match'']
           error_message)"

definition is_network_error :: "exn \<Rightarrow> string \<Rightarrow> bool" where
  "is_network_error exception error_message =
     (isinstance exception [ConnectionError, socket_error]
      \<or> any_in [''connection error'', ''network error'', ''connection refused'',
                 ''connection reset'', ''connection aborted'', ''network unreachable'',
                 ''host unreachable'', ''no route to host''] error_message)"

definition is_browser_error :: "exn \<Rightarrow> string \<Rightarrow> bool" where
  "is_browser_error exception error_message =
     (isinstance exception [WebDriverException, NoSuchElementException,
          ElementNotInteractableException, InvalidSessionIdException,
          SessionNotCreatedException, UnexpectedAlertPresentException]
      \<or> any_in [''webdriver'', ''selenium'', ''chrome'', ''browser'', ''driver'',
                 ''session not created'', ''invalid session'', ''element not found'',
                 ''element not interactable'', ''unexpected alert''] error_message)"

definition is_parse_error :: "exn \<Rightarrow> string \<Rightarrow> bool" where
  "is_parse_error exception error_message =
     (isinstance exception [ValueError, UnicodeError, UnicodeDecodeError]
      \<or> any_in [''parse error'', ''parsing'', ''invalid json'', ''decode error'',
                 ''encoding error'', ''unicode error'', ''malformed'', ''failed to parse'']
           error_message)"

definition is_dns_error :: "exn \<Rightarrow> string \<Rightarrow> bool" where
  "is_dns_error exception error_message =
     (isinstance exception [socket_gaierror]
      \<or> any_in [''name or service not known'', ''nodename nor servname provided'',
                 ''getaddrinfo failed'', ''no address associated with hostname'',
                 ''dns'', ''name resolution'', ''hostname''] error_message)"

definition categorize_error ::
  "ErrorHandler \<Rightarrow> exn \<Rightarrow> string \<Rightarrow> ErrorCategory \<times> ErrorHandler" where
  "categorize_error self exception url =
     (let error_message = lower (message exception);
          exception_type = type_name exception
      in if is_dns_error exception error_message then (DNS_ERROR, self)
         else if is_ssl_error exception error_message then (SSL_ERROR, self)
         else if is_timeout_error exception error_message then (TIMEOUT_ERROR, self)
         else if is_browser_error exception error_message then (BROWSER_ERROR, self)
         else if is_http_error exception error_message then (HTTP_ERROR, self)
         else if is_parse_error exception error_message then (PARSE_ERROR, self)
         else if is_network_error exception error_message then (NETWORK_ERROR, self)
         else (UNKNOWN_ERROR,
               self\<lparr>logged := logged self @ [Unknown_error_type exception_type error_message]\<rparr>))"

definition ErrorHandler_should_retry :: "ErrorCategory \<Rightarrow> bool" where
  "ErrorHandler_should_retry error_category =
     (error_category \<notin> {DNS_ERROR, SSL_ERROR, PARSE_ERROR})"

definition log_error :: "ErrorHandler \<Rightarrow> string \<Rightarrow> ErrorCategory \<Rightarrow> string \<Rightarrow> ErrorHandler" where
  "log_error self url error_category error_message =
     self\<lparr>logged := logged self @ [Logged_error url error_category error_message]\<rparr>"


text \<open>
  Nothing in the program reads the log back, so the callers below use
  \<open>categorize\<close>, which keeps the category only.
\<close>

definition categorize :: "ErrorHandler \<Rightarrow> exn \<Rightarrow> string \<Rightarrow> ErrorCategory" where
  "categorize self exception url = fst (categorize_error self exception url)"

section \<open>Python floats\<close>

text \<open>
  A finite Python float is an IEEE 754 binary64 number; the model keeps its exact value
  as a real number. \<open>round_double\<close> rounds a real to the nearest binary64 value, ties to
  even. \<open>exponent x\<close> is the binary exponent of \<open>x\<close>, not below \<open>-1022\<close>, and
  \<open>quantum x\<close> the spacing of the binary64 numbers around \<open>x\<close> (53 significant bits).
  A literal such as \<^verbatim>\<open>0.4\<close> is \<open>py_float (4 / 10)\<close> and \<^verbatim>\<open>a + b\<close> is \<open>fadd a b\<close>.
  Overflow to infinity is not modelled: every float computed below stays under 2.
\<close>

definition round_half_even :: "real \<Rightarrow> int" where
  "round_half_even x =
     (let f = \<lfloor>x\<rfloor>; r = x - of_int f
      in if r < 1 / 2 then f else if 1 / 2 < r then f + 1 else if even f then f else f + 1)"

function exponent_up :: "int \<Rightarrow> real \<Rightarrow> int" where
  "exponent_up e x = (if 2 \<le> x then exponent_up (e + 1) (x / 2) else e)"
  by pat_completeness auto
termination
proof (relation "measure (\<lambda>(e, x). nat \<lfloor>x\<rfloor>)")
  show "wf (measure (\<lambda>(e, x). nat \<lfloor>x\<rfloor>))"
    by simp
next
  fix e :: int and x :: real
  assume "2 \<le> x"
  then have "\<lfloor>x / 2\<rfloor> < \<lfloor>x\<rfloor>" and "0 < \<lfloor>x\<rfloor>"
    by linarith+
  then show "((e + 1, x / 2), (e, x)) \<in> measure (\<lambda>(e, x). nat \<lfloor>x\<rfloor>)"
    by simp
qed

function exponent_down :: "int \<Rightarrow> real \<Rightarrow> int" where
  "exponent_down e x = (if x < 1 \<and> - 1022 < e then exponent_down (e - 1) (2 * x) else e)"
  by pat_completeness auto
termination
  by (relation "measure (\<lambda>(e, x). nat (e + 1022))") auto

definition exponent :: "real \<Rightarrow> int" where
  "exponent x = (if 1 \<le> \<bar>x\<bar> then exponent_up 0 \<bar>x\<bar> else exponent_down 0 \<bar>x\<bar>)"

definition pow2 :: "int \<Rightarrow> real" where
  "pow2 e = (if 0 \<le> e then 2 ^ nat e else 1 / 2 ^ nat (- e))"

definition quantum :: "real \<Rightarrow> real" where
  "quantum x = pow2 (exponent x - 52)"

definition round_double :: "real \<Rightarrow> real" where
  "round_double x =
     (if x = 0 then 0 else of_int (round_half_even (x / quantum x)) * quantum x)"

definition py_float :: "real \<Rightarrow> real" where
  "py_float literal = round_double literal"

definition fadd :: "real \<Rightarrow> real \<Rightarrow> real" where
  "fadd x y = round_double (x + y)"

text \<open>
  Where a result can leave the binary64 range, the float is a \<open>pyfloat\<close>: a finite
  value, an infinity or not-a-number. A real rounds to an infinity when its rounding with
  unbounded exponent reaches \<open>2 ^ 1024\<close>. \<open>float_mul\<close> is \<^verbatim>\<open>*\<close> on two finite floats,
  \<open>float_add\<close> is \<^verbatim>\<open>+\<close>, and \<open>float_le\<close> is \<^verbatim>\<open><=\<close>.
\<close>

datatype pyfloat = Finite real | PosInf | NegInf | NaN

definition float_limit :: real where
  "float_limit = 2 ^ 1024"

definition float_of_real :: "real \<Rightarrow> pyfloat" where
  "float_of_real x =
     (let v = round_double x
      in if float_limit \<le> v then PosInf else if v \<le> - float_limit then NegInf else Finite v)"

definition float_mul :: "real \<Rightarrow> real \<Rightarrow> pyfloat" where
  "float_mul x y = float_of_real (x * y)"

fun float_add :: "pyfloat \<Rightarrow> pyfloat \<Rightarrow> pyfloat" where
  "float_add (Finite x) (Finite y) = float_of_real (x + y)"
| "float_add (Finite x) PosInf = PosInf"
| "float_add (Finite x) NegInf = NegInf"
| "float_add PosInf (Finite y) = PosInf"
| "float_add PosInf PosInf = PosInf"
| "float_add PosInf NegInf = NaN"
| "float_add NegInf (Finite y) = NegInf"
| "float_add NegInf NegInf = NegInf"
| "float_add NegInf PosInf = NaN"
| "float_add NaN y = NaN"
| "float_add x NaN = NaN"

fun float_le :: "pyfloat \<Rightarrow> pyfloat \<Rightarrow> bool" where
  "float_le (Finite x) (Finite y) = (x \<le> y)"
| "float_le NaN y = False"
| "float_le x NaN = False"
| "float_le NegInf y = True"
| "float_le x PosInf = True"
| "float_le x NegInf = False"
| "float_le PosInf y = False"

section \<open>Rendering classifier (\<^verbatim>\<open>website_renderer.py\<close>)\<close>

record DetectionMetrics =
  content_size_difference :: int
  framework_indicators :: "string list"
  dynamic_content_detected :: bool
  javascript_execution_time :: real
  dom_mutation_count :: int
  http_response_time :: real
  browser_load_time :: real

definition modern_frameworks :: "string list" where
  "modern_frameworks = [''React'', ''Vue'', ''Next.js'', ''Nuxt.js'']"

definition any_modern :: "string list \<Rightarrow> bool" where
  "any_modern frameworks = list_ex (\<lambda>fw. fw \<in> set modern_frameworks) frameworks"

text \<open>
  \<^verbatim>\<open>_calculate_weighted_score\<close>. Each \<^verbatim>\<open>score += w\<close> is one floating-point addition,
  in the order of the source.
\<close>

definition calculate_weighted_score ::
  "DetectionMetrics \<Rightarrow> string list \<Rightarrow> bool \<Rightarrow> int \<Rightarrow> real" where
  "calculate_weighted_score metrics frameworks dynamic_detected mutation_count =
     (let score = py_float 0;
          score = (if frameworks \<noteq> []
                   then (let score = fadd score (py_float (4 / 10))
                         in if any_modern frameworks then fadd score (py_float (1 / 10))
                            else score)
                   else score);
          size_diff = content_size_difference metrics;
          score = (if size_diff > 2000 then fadd score (py_float (3 / 10))
                   else if size_diff > 1000 then fadd score (py_float (2 / 10))
                   else if size_diff > 500 then fadd score (py_float (1 / 10))
                   else score);
          score = (if dynamic_detected then fadd score (py_float (2 / 10)) else score);
          score = (if mutation_count > 20 then fadd score (py_float (2 / 10))
                   else if mutation_count > 10 then fadd score (py_float (1 / 10))
                   else if mutation_count > 5 then fadd score (py_float (5 / 100))
                   else score);
          score = (if framework_indicators metrics \<noteq> [] then fadd score (py_float (1 / 10))
                   else score)
      in min score (py_float 1))"

text \<open>
  \<^verbatim>\<open>len(x)\<close> raises \<^verbatim>\<open>TypeError\<close> on \<open>None\<close> and on an integer.
\<close>

definition type_error :: "string \<Rightarrow> exn" where
  "type_error msg =
     \<lparr>classes = [TypeError], type_name = ''TypeError'', message = msg, exn_response = None\<rparr>"

fun py_len :: "pyval \<Rightarrow> exn + int" where
  "py_len (PyStr s) = Inr (int (length s))"
| "py_len PyNone = Inl (type_error ''object of type 'NoneType' has no len()'')"
| "py_len (PyInt i) = Inl (type_error ''object of type 'int' has no len()'')"

text \<open>
  The HTML parser is a library outside the repository. \<open>soup\<close> gives, for a document,
  what \<^verbatim>\<open>_compare_content\<close> reads from the parse: the number of
  div/p/span/article/section elements and the number of script elements, or the
  exception the parser raised.
\<close>

type_synonym html_parser = "string \<Rightarrow> exn + (int \<times> int)"

definition framework_patterns :: "string list" where
  "framework_patterns = [''data-react'', ''data-vue'', ''ng-'', ''data-next'', ''data-nuxt'']"

definition search_ignorecase :: "string \<Rightarrow> string \<Rightarrow> bool" where
  "search_ignorecase pattern s = py_in (lower pattern) (lower s)"

definition compare_content :: "html_parser \<Rightarrow> pyval \<Rightarrow> pyval \<Rightarrow> exn + DetectionMetrics" where
  "compare_content soup http_content browser_content =
     (case py_len browser_content of
        Inl e \<Rightarrow> Inl e
      | Inr browser_len \<Rightarrow>
         (case py_len http_content of
            Inl e \<Rightarrow> Inl e
          | Inr http_len \<Rightarrow>
             (let metrics = \<lparr>content_size_difference = browser_len - http_len,
                             framework_indicators = [], dynamic_content_detected = False,
                             javascript_execution_time = 0, dom_mutation_count = 0,
                             http_response_time = 0, browser_load_time = 0\<rparr>
              in case (http_content, browser_content) of
                   (PyStr http, PyStr browser) \<Rightarrow>
                     (case soup http of
                        Inl e \<Rightarrow> Inr metrics
                      | Inr (http_elements, http_scripts) \<Rightarrow>
                         (case soup browser of
                            Inl e \<Rightarrow> Inr metrics
                          | Inr (browser_elements, browser_scripts) \<Rightarrow>
                             (let element_increase = browser_elements - http_elements;
                                  metrics = (if element_increase > 10
                                             then metrics\<lparr>dynamic_content_detected := True\<rparr>
                                             else metrics);
                                  metrics = (if browser_scripts > http_scripts + 2
                                             then metrics\<lparr>dynamic_content_detected := True\<rparr>
                                             else metrics)
                              in Inr (metrics\<lparr>framework_indicators :=
                                        filter (\<lambda>pattern. search_ignorecase pattern browser)
                                          framework_patterns\<rparr>))))
                 | _ \<Rightarrow> Inr metrics)))"

text \<open>
  The rendering engine, as far as \<^verbatim>\<open>_analyze_dynamic_content\<close> looks at it: the run of
  its scripts either raises or gives the two snapshots and the mutation count.
\<close>

record dom_observation =
  initial_html :: string
  initial_text_content :: string
  final_html :: string
  final_text_content :: string
  mutation_count_seen :: int

record WebDriver =
  observe :: "exn + dom_observation"

definition analyze_dynamic_content :: "WebDriver \<Rightarrow> bool \<times> int" where
  "analyze_dynamic_content driver =
     (case observe driver of
        Inl e \<Rightarrow> (False, 0)
      | Inr obs \<Rightarrow>
         (let mutation_count = mutation_count_seen obs;
              html_changed = (length (final_html obs) \<noteq> length (initial_html obs));
              text_changed =
                (length (final_text_content obs) \<noteq> length (initial_text_content obs));
              significant_mutations = (mutation_count > 5);
              size_difference =
                \<bar>int (length (final_text_content obs)) - int (length (initial_text_content obs))\<bar>;
              significant_size_change = (size_difference > 100)
          in (html_changed \<or> text_changed \<or> significant_mutations \<or> significant_size_change,
              mutation_count)))"

definition CSR_THRESHOLD :: real where
  "CSR_THRESHOLD = py_float (6 / 10)"

definition SSR_THRESHOLD :: real where
  "SSR_THRESHOLD = py_float (3 / 10)"

text \<open>
  \<^verbatim>\<open>_classify_rendering_type\<close>. \<open>classify_rendering_type_try\<close> is the body of the
  source's \<^verbatim>\<open>try\<close>: it raises only where \<^verbatim>\<open>_compare_content\<close> does, the two helpers
  having handlers of their own. The \<^verbatim>\<open>except\<close> branch answers Server-Side Rendered.
\<close>

definition classify_rendering_type_try ::
  "html_parser \<Rightarrow> pyval \<Rightarrow> pyval \<Rightarrow> string list \<Rightarrow> WebDriver \<Rightarrow> exn + RenderingType" where
  "classify_rendering_type_try soup html_requests html_selenium frameworks driver =
     (case compare_content soup html_requests html_selenium of
        Inl e \<Rightarrow> Inl e
      | Inr metrics \<Rightarrow>
         (let (dynamic_detected, mutation_count) = analyze_dynamic_content driver;
              metrics = metrics\<lparr>dynamic_content_detected := dynamic_detected,
                               dom_mutation_count := mutation_count\<rparr>;
              csr_score = calculate_weighted_score metrics frameworks dynamic_detected
                            mutation_count
          in if csr_score \<ge> CSR_THRESHOLD then Inr CLIENT_SIDE_RENDERED
             else if csr_score \<le> SSR_THRESHOLD then Inr SERVER_SIDE_RENDERED
             else if any_modern frameworks then Inr CLIENT_SIDE_RENDERED
             else if content_size_difference metrics > 1000 then Inr CLIENT_SIDE_RENDERED
             else if mutation_count > 15 then Inr CLIENT_SIDE_RENDERED
             else Inr SERVER_SIDE_RENDERED))"

definition classify_rendering_type ::
  "html_parser \<Rightarrow> pyval \<Rightarrow> pyval \<Rightarrow> string list \<Rightarrow> WebDriver \<Rightarrow> RenderingType" where
  "classify_rendering_type soup html_requests html_selenium frameworks driver =
     (case classify_rendering_type_try soup html_requests html_selenium frameworks driver of
        Inr verdict \<Rightarrow> verdict
      | Inl e \<Rightarrow> SERVER_SIDE_RENDERED)"

section \<open>Retry orchestrator (\<^verbatim>\<open>models.py\<close>, \<^verbatim>\<open>retry_manager.py\<close>)\<close>

text \<open>
  The two factors of a policy are finite floats. Time stamps are left out of the
  records; \<^verbatim>\<open>time.sleep\<close> is taken to return and changes no state.
\<close>

record RetryConfig =
  max_attempts :: int
  backoff_base :: real
  backoff_multiplier :: real
  non_retryable_errors :: "ErrorCategory list"

definition zero_division_error :: exn where
  "zero_division_error =
     \<lparr>classes = [], type_name = ''ZeroDivisionError'',
      message = ''0.0 cannot be raised to a negative power'', exn_response = None\<rparr>"

definition overflow_error :: exn where
  "overflow_error =
     \<lparr>classes = [], type_name = ''OverflowError'',
      message = ''(34, 'Numerical result out of range')'', exn_response = None\<rparr>"

text \<open>
  \<^verbatim>\<open>x ** n\<close> for a float \<open>x\<close> and an integer \<open>n\<close>: the power rounded to the nearest float.
  Zero to a negative power raises \<^verbatim>\<open>ZeroDivisionError\<close>, and a result beyond the float
  range raises \<^verbatim>\<open>OverflowError\<close>.
\<close>

definition fpow :: "real \<Rightarrow> int \<Rightarrow> exn + real" where
  "fpow x n =
     (if x = 0 \<and> n < 0 then Inl zero_division_error
      else (case float_of_real (x powi n) of
              Finite v \<Rightarrow> Inr v
            | _ \<Rightarrow> Inl overflow_error))"

text \<open>\<^verbatim>\<open>RetryConfig.get_backoff_delay\<close>.\<close>

definition RetryConfig_get_backoff_delay :: "RetryConfig \<Rightarrow> int \<Rightarrow> exn + pyfloat" where
  "RetryConfig_get_backoff_delay self attempt =
     (case fpow (backoff_multiplier self) (attempt - 1) of
        Inl e \<Rightarrow> Inl e
      | Inr p \<Rightarrow> Inr (float_mul (backoff_base self) p))"

record RetryAttempt =
  attempt_number :: int
  error_category :: ErrorCategory
  error_message :: string
  delay_before_attempt :: pyfloat

record RetryHistory =
  url :: string
  total_attempts :: int
  success :: bool
  final_error :: "string option"
  attempts :: "RetryAttempt list"
  total_retry_time :: pyfloat

definition add_attempt :: "RetryHistory \<Rightarrow> RetryAttempt \<Rightarrow> RetryHistory" where
  "add_attempt self attempt =
     self\<lparr>attempts := attempts self @ [attempt],
          total_retry_time :=
            float_add (total_retry_time self) (delay_before_attempt attempt)\<rparr>"

record RetryManager =
  config :: RetryConfig
  error_handler :: ErrorHandler
  retry_histories :: "string \<rightharpoonup> RetryHistory"

definition get_backoff_delay :: "RetryManager \<Rightarrow> int \<Rightarrow> exn + pyfloat" where
  "get_backoff_delay self attempt =
     (if attempt \<le> 0 then Inr (Finite 0)
      else RetryConfig_get_backoff_delay (config self) attempt)"

definition should_retry :: "RetryManager \<Rightarrow> ErrorCategory \<Rightarrow> int \<Rightarrow> bool" where
  "should_retry self category attempt =
     (if attempt \<ge> max_attempts (config self) then False
      else if category \<in> set (non_retryable_errors (config self)) then False
      else ErrorHandler_should_retry category)"

definition get_retry_history :: "RetryManager \<Rightarrow> string \<Rightarrow> RetryHistory option" where
  "get_retry_history self u = retry_histories self u"

definition runtime_error :: "string \<Rightarrow> exn" where
  "runtime_error msg =
     \<lparr>classes = [RuntimeError], type_name = ''RuntimeError'', message = msg,
      exn_response = None\<rparr>"

text \<open>
  The operation handed to the orchestrator is given by its outcomes: \<open>func k\<close> is what
  its call number \<open>k\<close> (counted from 0) does, raise or return. The loop of
  \<^verbatim>\<open>execute_with_retry\<close> runs over \<^verbatim>\<open>range(1, max_attempts + 1)\<close>; it carries the
  history, the number of calls made so far and \<^verbatim>\<open>last_exception\<close>. Leaving the loop by
  \<^verbatim>\<open>break\<close> or by its end raises \<^verbatim>\<open>last_exception\<close>, or the \<^verbatim>\<open>RuntimeError\<close> if there
  is none.
\<close>

fun retry_loop ::
  "RetryManager \<Rightarrow> (nat \<Rightarrow> exn + 'a) \<Rightarrow> string \<Rightarrow> int list \<Rightarrow> RetryHistory \<Rightarrow> nat
     \<Rightarrow> exn option \<Rightarrow> (exn + 'a) \<times> RetryHistory \<times> nat" where
  "retry_loop self func u [] history calls last_exception =
     (case last_exception of
        Some e \<Rightarrow> (Inl e, history, calls)
      | None \<Rightarrow>
          (Inl (runtime_error (''Unexpected error in retry logic for '' @ u)), history, calls))"
| "retry_loop self func u (attempt # rest) history calls last_exception =
     (let history = history\<lparr>total_attempts := attempt\<rparr>
      in case func calls of
           Inr result \<Rightarrow> (Inr result, history\<lparr>success := True\<rparr>, Suc calls)
         | Inl e \<Rightarrow>
            (let category = categorize (error_handler self) e u;
                 msg = message e;
                 retry_attempt = \<lparr>attempt_number = attempt, error_category = category,
                                   error_message = msg,
                                   delay_before_attempt = Finite 0\<rparr>;
                 given_up = (add_attempt history retry_attempt)
                              \<lparr>final_error := Some (ErrorCategory_value category @ '': '' @ msg)\<rparr>
             in if \<not> should_retry self category attempt then (Inl e, given_up, Suc calls)
                else if attempt \<ge> max_attempts (config self) then (Inl e, given_up, Suc calls)
                else (case get_backoff_delay self attempt of
                        Inl e' \<Rightarrow> (Inl e', history, Suc calls)
                      | Inr delay \<Rightarrow>
                          retry_loop self func u rest
                            (add_attempt history (retry_attempt\<lparr>delay_before_attempt := delay\<rparr>))
                            (Suc calls) (Some e))))"

definition history_key :: "pyval list \<Rightarrow> string" where
  "history_key args = (case args of PyStr s # _ \<Rightarrow> s | _ \<Rightarrow> ''unknown'')"

definition execute_with_retry ::
  "RetryManager \<Rightarrow> (nat \<Rightarrow> exn + 'a) \<Rightarrow> pyval list \<Rightarrow> (exn + 'a) \<times> RetryManager \<times> nat" where
  "execute_with_retry self func args =
     (let u = history_key args;
          history = \<lparr>url = u, total_attempts = 0, success = False, final_error = None,
                     attempts = [], total_retry_time = Finite 0\<rparr>;
          (outcome, history, calls) =
             retry_loop self func u [1..max_attempts (config self)] history 0 None
      in (outcome, self\<lparr>retry_histories := (retry_histories self)(u \<mapsto> history)\<rparr>, calls))"

text \<open>
  The retry count that \<^verbatim>\<open>detect_rendering_type\<close> reads off the history, on both of its
  paths.
\<close>

definition retry_count_of :: "RetryHistory option \<Rightarrow> int" where
  "retry_count_of retry_history =
     (case retry_history of Some h \<Rightarrow> max 0 (total_attempts h - 1) | None \<Rightarrow> 0)"

section \<open>Resource pool (\<^verbatim>\<open>performance_optimizer.py\<close>)\<close>

text \<open>
  A browser object is identified with its \<^verbatim>\<open>id\<close>, the key of the two tracking
  dictionaries. What an acquisition meets outside the pool is its environment: which
  browsers still answer \<^verbatim>\<open>current_url\<close>, the two readings of \<^verbatim>\<open>time.time()\<close>, and what
  \<^verbatim>\<open>_create_optimized_browser\<close> does. \<open>fsub\<close> is the floating-point subtraction.
\<close>

type_synonym browser = nat

definition fsub :: "real \<Rightarrow> real \<Rightarrow> real" where
  "fsub x y = round_double (x - y)"

record PerformanceOptimizer =
  browser_pool :: "browser list"
  browser_usage_count :: "browser \<rightharpoonup> int"
  browser_creation_time :: "browser \<rightharpoonup> real"
  browser_restart_threshold :: int
  browser_max_age :: real
  browsers_created :: int
  browsers_reused :: int
  total_requests :: int

record pool_env =
  responsive :: "browser \<Rightarrow> bool"
  current_time :: real
  new_browser :: "exn + browser"
  registration_time :: real

text \<open>The state right after \<^verbatim>\<open>__init__\<close>.\<close>

definition new_optimizer :: PerformanceOptimizer where
  "new_optimizer =
     \<lparr>browser_pool = [], browser_usage_count = Map.empty, browser_creation_time = Map.empty,
      browser_restart_threshold = 50, browser_max_age = 3600,
      browsers_created = 0, browsers_reused = 0, total_requests = 0\<rparr>"

definition remove_browser_from_pool :: "PerformanceOptimizer \<Rightarrow> browser \<Rightarrow> PerformanceOptimizer" where
  "remove_browser_from_pool self b =
     self\<lparr>browser_pool := remove1 b (browser_pool self),
          browser_usage_count := (browser_usage_count self)(b := None),
          browser_creation_time := (browser_creation_time self)(b := None)\<rparr>"

definition dict_get :: "('k \<rightharpoonup> 'v) \<Rightarrow> 'k \<Rightarrow> 'v \<Rightarrow> 'v" where
  "dict_get d k dflt = (case d k of Some v \<Rightarrow> v | None \<Rightarrow> dflt)"

text \<open>
  The loop of \<^verbatim>\<open>_get_reusable_browser\<close> runs over a copy of the pool taken at its
  start, while removals change the pool itself.
\<close>

fun reusable_scan ::
  "pool_env \<Rightarrow> PerformanceOptimizer \<Rightarrow> browser list \<Rightarrow> browser option \<times> PerformanceOptimizer" where
  "reusable_scan env self [] = (None, self)"
| "reusable_scan env self (b # rest) =
     (if \<not> responsive env b then reusable_scan env (remove_browser_from_pool self b) rest
      else
        (let usage_count = dict_get (browser_usage_count self) b 0;
             creation_time = dict_get (browser_creation_time self) b (current_time env);
             age = fsub (current_time env) creation_time
         in if usage_count \<ge> browser_restart_threshold self \<or> age \<ge> browser_max_age self
            then reusable_scan env (remove_browser_from_pool self b) rest
            else (Some b,
                  self\<lparr>browser_usage_count := (browser_usage_count self)(b \<mapsto> usage_count + 1)\<rparr>)))"

definition get_reusable_browser ::
  "pool_env \<Rightarrow> PerformanceOptimizer \<Rightarrow> browser option \<times> PerformanceOptimizer" where
  "get_reusable_browser env self = reusable_scan env self (browser_pool self)"

definition get_optimized_browser ::
  "pool_env \<Rightarrow> PerformanceOptimizer \<Rightarrow> string \<Rightarrow> (exn + browser) \<times> PerformanceOptimizer" where
  "get_optimized_browser env self u =
     (let self = self\<lparr>total_requests := total_requests self + 1\<rparr>
      in case get_reusable_browser env self of
           (Some b, self) \<Rightarrow> (Inr b, self\<lparr>browsers_reused := browsers_reused self + 1\<rparr>)
         | (None, self) \<Rightarrow>
            (case new_browser env of
               Inl e \<Rightarrow> (Inl e, self)
             | Inr b \<Rightarrow>
                (Inr b,
                 self\<lparr>browsers_created := browsers_created self + 1,
                      browser_pool := browser_pool self @ [b],
                      browser_usage_count := (browser_usage_count self)(b \<mapsto> 0),
                      browser_creation_time :=
                        (browser_creation_time self)(b \<mapsto> registration_time env)\<rparr>)))"

text \<open>A run of acquisitions, one environment each; the list of what they returned.\<close>

fun acquire_all ::
  "pool_env list \<Rightarrow> PerformanceOptimizer \<Rightarrow> string \<Rightarrow> (exn + browser) list \<times> PerformanceOptimizer" where
  "acquire_all [] self u = ([], self)"
| "acquire_all (env # envs) self u =
     (let (r, self) = get_optimized_browser env self u;
          (rs, self) = acquire_all envs self u
      in (r # rs, self))"

section \<open>Detection pipeline (\<^verbatim>\<open>website_renderer.py\<close>)\<close>

text \<open>
  \<^verbatim>\<open>ProcessingResult\<close> of \<^verbatim>\<open>models.py\<close>, without the two clock readings
  (\<^verbatim>\<open>processing_time_sec\<close>, \<^verbatim>\<open>timestamp\<close>). Fields whose names other records use
  carry the prefix \<open>result_\<close>.
\<close>

record ProcessingResult =
  result_url :: pyval
  final_url :: pyval
  rendering_type :: string
  status :: string
  frameworks :: "string list"
  result_error_category :: "string option"
  result_error_message :: "string option"
  retry_count :: int
  http_status_code :: "int option"

text \<open>Decimal digits of an integer, as an f-string prints it.\<close>

fun str_nat :: "nat \<Rightarrow> string" where
  "str_nat n =
     (if n < 10 then [char_of (48 + n)] else str_nat (n div 10) @ [char_of (48 + n mod 10)])"

definition str_int :: "int \<Rightarrow> string" where
  "str_int i = (if i < 0 then CHR ''-'' # str_nat (nat (- i)) else str_nat (nat i))"

text \<open>
  \<^verbatim>\<open>get_error_details\<close>, the two entries that are read afterwards. A
  \<^verbatim>\<open>requests\<close> response is true when its status is outside 400..599.
\<close>

definition response_ok :: "response \<Rightarrow> bool" where
  "response_ok r = (\<not> (400 \<le> status_code r \<and> status_code r < 600))"

definition details_http_status_code :: "exn \<Rightarrow> int option" where
  "details_http_status_code exception =
     (case exn_response exception of
        Some r \<Rightarrow> (if response_ok r then Some (status_code r) else None)
      | None \<Rightarrow> None)"

definition format_error_for_output :: "ErrorCategory \<Rightarrow> string \<Rightarrow> exn \<Rightarrow> string" where
  "format_error_for_output category msg exception =
     (let formatted = ErrorCategory_value category @ '': '' @ msg;
          formatted = (case details_http_status_code exception of
                         Some code \<Rightarrow> formatted @ '' (HTTP '' @ str_int code @ '')''
                       | None \<Rightarrow> formatted);
          formatted = formatted @ '' ['' @ type_name exception @ '']''
      in if length formatted > 200 then take 197 formatted @ ''...'' else formatted)"

text \<open>
  One attempt, as the world answers it: the plain fetch, the pooled engine with the page
  loaded, the rendered source, and the outcome of \<^verbatim>\<open>_detect_frameworks\<close>.
\<close>

record page_visit =
  http_get :: "exn + response"
  webdriver :: "exn + WebDriver"
  page_source :: string
  detect_frameworks :: "exn + string list"

text \<open>
  The \<^verbatim>\<open>HTTPError\<close> raised for a status of 400 or more. The class derives from
  \<^verbatim>\<open>OSError\<close>, which \<^verbatim>\<open>socket.error\<close> names.
\<close>

definition http_error :: "response \<Rightarrow> exn" where
  "http_error resp =
     \<lparr>classes = [HTTPError, socket_error], type_name = ''HTTPError'',
      message = ''HTTP '' @ str_int (status_code resp) @ '': '' @ reason resp,
      exn_response = Some resp\<rparr>"

definition detect_rendering_type_internal ::
  "html_parser \<Rightarrow> page_visit \<Rightarrow> string \<Rightarrow> exn + ProcessingResult" where
  "detect_rendering_type_internal soup visit u =
     (case http_get visit of
        Inl e \<Rightarrow> Inl e
      | Inr resp \<Rightarrow>
         (if status_code resp \<ge> 400 then Inl (http_error resp)
          else
            (case webdriver visit of
               Inl e \<Rightarrow> Inl e
             | Inr driver \<Rightarrow>
                (let html_requests = resp_text resp;
                     html_selenium = page_source visit;
                     fws = (case detect_frameworks visit of Inl e \<Rightarrow> [] | Inr found \<Rightarrow> found);
                     verdict = classify_rendering_type soup (PyStr html_requests)
                                 (PyStr html_selenium) fws driver
                 in Inr \<lparr>result_url = PyStr u, final_url = PyStr (resp_url resp),
                         rendering_type = RenderingType_value verdict,
                         status = ProcessingStatus_value SUCCESS,
                         frameworks = fws,
                         result_error_category = None, result_error_message = None,
                         retry_count = 0, http_status_code = Some (status_code resp)\<rparr>))))"

text \<open>
  The detector keeps its retry manager; \<open>str_of\<close> reads the characters of a string
  value. A call of \<^verbatim>\<open>detect_rendering_type\<close> meets the
  visits of its attempts, in order, and whatever the resource check after a success
  raises. The result comes with the number of attempts made.
\<close>

record WebsiteRendererDetector =
  retry_manager :: RetryManager

record detection_world =
  parser :: html_parser
  visits :: "nat \<Rightarrow> page_visit"
  restart_failure :: "exn option"

definition truthy :: "pyval \<Rightarrow> bool" where
  "truthy v = (case v of PyNone \<Rightarrow> False | PyStr s \<Rightarrow> s \<noteq> [] | PyInt i \<Rightarrow> i \<noteq> 0)"

definition is_str :: "pyval \<Rightarrow> bool" where
  "is_str v = (case v of PyStr s \<Rightarrow> True | _ \<Rightarrow> False)"

definition failure_result ::
  "WebsiteRendererDetector \<Rightarrow> pyval \<Rightarrow> string \<Rightarrow> exn \<Rightarrow> ProcessingResult" where
  "failure_result self original_url u e =
     (let category = categorize (error_handler (retry_manager self)) e u;
          formatted_error = format_error_for_output category (message e) e;
          retry_history = get_retry_history (retry_manager self) u
      in \<lparr>result_url = original_url, final_url = PyStr u,
          rendering_type = RenderingType_value NOT_ACCESSIBLE,
          status = ProcessingStatus_value FAILED,
          frameworks = [],
          result_error_category = Some (ErrorCategory_value category),
          result_error_message = Some formatted_error,
          retry_count = retry_count_of retry_history,
          http_status_code = details_http_status_code e\<rparr>)"

definition str_of :: "pyval \<Rightarrow> string" where
  "str_of v = (case v of PyStr s \<Rightarrow> s | _ \<Rightarrow> [])"

definition detect_rendering_type ::
  "detection_world \<Rightarrow> WebsiteRendererDetector \<Rightarrow> pyval \<Rightarrow> int option
     \<Rightarrow> ProcessingResult \<times> WebsiteRendererDetector \<times> nat" where
  "detect_rendering_type world self original_url max_retries =
     (if \<not> truthy original_url \<or> \<not> is_str original_url then
        (\<lparr>result_url = original_url, final_url = original_url,
          rendering_type = RenderingType_value NOT_ACCESSIBLE,
          status = ProcessingStatus_value FAILED,
          frameworks = [],
          result_error_category = Some (ErrorCategory_value PARSE_ERROR),
          result_error_message = Some ''Invalid URL format'',
          retry_count = 0, http_status_code = None\<rparr>, self, 0)
      else
        (let u = (if startswith (str_of original_url) ''http://''
                     \<or> startswith (str_of original_url) ''https://''
                  then str_of original_url else ''http://'' @ str_of original_url);
             manager =
               (case max_retries of
                  None \<Rightarrow> retry_manager self
                | Some n \<Rightarrow>
                   (if n \<noteq> max_attempts (config (retry_manager self))
                    then \<lparr>config = \<lparr>max_attempts = n, backoff_base = 1, backoff_multiplier = 2,
                                     non_retryable_errors = [DNS_ERROR, SSL_ERROR]\<rparr>,
                          error_handler = error_handler (retry_manager self),
                          retry_histories = Map.empty\<rparr>
                    else retry_manager self));
             (outcome, manager, calls) =
                execute_with_retry manager
                  (\<lambda>k. detect_rendering_type_internal (parser world) (visits world k) u)
                  [PyStr u];
             self = self\<lparr>retry_manager := manager\<rparr>
         in case outcome of
              Inr result \<Rightarrow>
               (let result = result\<lparr>retry_count :=
                               retry_count_of (get_retry_history manager u)\<rparr>
                in case restart_failure world of
                     None \<Rightarrow> (result, self, calls)
                   | Some e \<Rightarrow> (failure_result self original_url u e, self, calls))
            | Inl e \<Rightarrow> (failure_result self original_url u e, self, calls)))"

section \<open>The specification's formulations\<close>

text \<open>
  The definitions of this section follow the wording of the specification, not the
  code; the theorems below compare the two.
\<close>

subsection \<open>Ordered decision tables\<close>

fun first_match :: "(bool \<times> 'a) list \<Rightarrow> 'a \<Rightarrow> 'a" where
  "first_match [] otherwise = otherwise"
| "first_match ((applies, answer) # rules) otherwise =
     (if applies then answer else first_match rules otherwise)"


subsection \<open>The weighted score as a sum\<close>

text \<open>
  \<open>bracket v bs\<close> is the weight of the highest bracket that \<open>v\<close> exceeds, if any.
  \<open>score_terms\<close> lists the weights that the signals earn, and \<open>float_sum\<close> adds them
  from the left in floating point.
\<close>

fun bracket :: "int \<Rightarrow> (int \<times> real) list \<Rightarrow> real list" where
  "bracket v [] = []"
| "bracket v ((bound, weight) # lower_brackets) =
     (if v > bound then [weight] else bracket v lower_brackets)"

definition score_terms :: "string list \<Rightarrow> int \<Rightarrow> bool \<Rightarrow> int \<Rightarrow> string list \<Rightarrow> real list" where
  "score_terms found size_delta dynamic_flag mutations indicators =
     (if found \<noteq> [] then [py_float (4 / 10)] else [])
     @ (if any_modern found then [py_float (1 / 10)] else [])
     @ bracket size_delta
         [(2000, py_float (3 / 10)), (1000, py_float (2 / 10)), (500, py_float (1 / 10))]
     @ (if dynamic_flag then [py_float (2 / 10)] else [])
     @ bracket mutations
         [(20, py_float (2 / 10)), (10, py_float (1 / 10)), (5, py_float (5 / 100))]
     @ (if indicators \<noteq> [] then [py_float (1 / 10)] else [])"

definition float_sum :: "real list \<Rightarrow> real" where
  "float_sum ws = foldl fadd (py_float 0) ws"

text \<open>
  The same weights as decimal numbers, and the score as the specification words it:
  their sum, capped at 1.0, as the float that stands for it.
\<close>

definition decimal_terms :: "string list \<Rightarrow> int \<Rightarrow> bool \<Rightarrow> int \<Rightarrow> string list \<Rightarrow> real list" where
  "decimal_terms found size_delta dynamic_flag mutations indicators =
     (if found \<noteq> [] then [4 / 10] else [])
     @ (if any_modern found then [1 / 10] else [])
     @ bracket size_delta [(2000, 3 / 10), (1000, 2 / 10), (500, 1 / 10)]
     @ (if dynamic_flag then [2 / 10] else [])
     @ bracket mutations [(20, 2 / 10), (10, 1 / 10), (5, 5 / 100)]
     @ (if indicators \<noteq> [] then [1 / 10] else [])"

definition decimal_score :: "string list \<Rightarrow> int \<Rightarrow> bool \<Rightarrow> int \<Rightarrow> string list \<Rightarrow> real" where
  "decimal_score found size_delta dynamic_flag mutations indicators =
     min (sum_list (decimal_terms found size_delta dynamic_flag mutations indicators)) 1"

definition spec_score :: "string list \<Rightarrow> int \<Rightarrow> bool \<Rightarrow> int \<Rightarrow> string list \<Rightarrow> real" where
  "spec_score found size_delta dynamic_flag mutations indicators =
     py_float (decimal_score found size_delta dynamic_flag mutations indicators)"

subsection \<open>The signals of a classification\<close>




definition float_score :: "string list \<Rightarrow> int \<Rightarrow> bool \<Rightarrow> int \<Rightarrow> string list \<Rightarrow> real" where
  "float_score found size_delta dynamic_flag mutations indicators =
     min (float_sum (score_terms found size_delta dynamic_flag mutations indicators))
       (py_float 1)"

subsection \<open>The classification rules as a table\<close>

text \<open>
  The priority order of the categories, and for each category the exception classes and
  the phrases of its rule.
\<close>

definition priority_order :: "ErrorCategory list" where
  "priority_order =
     [DNS_ERROR, SSL_ERROR, TIMEOUT_ERROR, BROWSER_ERROR, HTTP_ERROR, PARSE_ERROR, NETWORK_ERROR]"

fun category_classes :: "ErrorCategory \<Rightarrow> exn_class list" where
  "category_classes DNS_ERROR = [socket_gaierror]"
| "category_classes SSL_ERROR = [ssl_SSLError, RequestsSSLError, Urllib3SSLError]"
| "category_classes TIMEOUT_ERROR = [Timeout, TimeoutException, socket_timeout]"
| "category_classes BROWSER_ERROR =
     [WebDriverException, NoSuchElementException, ElementNotInteractableException,
      InvalidSessionIdException, SessionNotCreatedException, UnexpectedAlertPresentException]"
| "category_classes HTTP_ERROR = [HTTPError]"
| "category_classes PARSE_ERROR = [ValueError, UnicodeError, UnicodeDecodeError]"
| "category_classes NETWORK_ERROR = [ConnectionError, socket_error]"
| "category_classes UNKNOWN_ERROR = []"

fun category_phrases :: "ErrorCategory \<Rightarrow> string list" where
  "category_phrases DNS_ERROR =
     [''name or service not known'', ''nodename nor servname provided'',
      ''getaddrinfo failed'', ''no address associated with hostname'',
      ''dns'', ''name resolution'', ''hostname'']"
| "category_phrases SSL_ERROR =
     [''ssl'', ''certificate'', ''tls'', ''handshake'', ''verify failed'',
      ''certificate_verify_failed'', ''ssl certificate problem'',
      ''certificate has expired'', ''hostname doesn'' @ [CHR 39] @ ''t match'']"
| "category_phrases TIMEOUT_ERROR =
     [''timeout'', ''timed out'', ''read timeout'', ''connection timeout'',
      ''request timeout'', ''response timeout'']"
| "category_phrases BROWSER_ERROR =
     [''webdriver'', ''selenium'', ''chrome'', ''browser'', ''driver'',
      ''session not created'', ''invalid session'', ''element not found'',
      ''element not interactable'', ''unexpected alert'']"
| "category_phrases HTTP_ERROR =
     [''http error'', ''status code'', ''404'', ''403'', ''500'', ''502'', ''503'',
      ''504'', ''bad request'', ''unauthorized'', ''forbidden'', ''not found'',
      ''internal server error'', ''bad gateway'', ''service unavailable'']"
| "category_phrases PARSE_ERROR =
     [''parse error'', ''parsing'', ''invalid json'', ''decode error'',
      ''encoding error'', ''unicode error'', ''malformed'', ''failed to parse'']"
| "category_phrases NETWORK_ERROR =
     [''connection error'', ''network error'', ''connection refused'',
      ''connection reset'', ''connection aborted'', ''network unreachable'',
      ''host unreachable'', ''no route to host'']"
| "category_phrases UNKNOWN_ERROR = []"

text \<open>
  A category's rule as the specification words it: the structural-type test or the
  case-insensitive phrase test.
\<close>

definition type_or_phrase_match :: "ErrorCategory \<Rightarrow> exn \<Rightarrow> bool" where
  "type_or_phrase_match category e =
     (isinstance e (category_classes category)
      \<or> any_in (category_phrases category) (lower (message e)))"


text \<open>
  The rule with the third test that the code has for HTTP: a status code 4xx or 5xx
  standing alone in the message.
\<close>

definition rule_match :: "ErrorCategory \<Rightarrow> exn \<Rightarrow> bool" where
  "rule_match category e =
     (type_or_phrase_match category e
      \<or> (category = HTTP_ERROR \<and> status_code_search (lower (message e))))"

definition classify_by_rules :: "exn \<Rightarrow> ErrorCategory" where
  "classify_by_rules e =
     first_match (map (\<lambda>category. (rule_match category e, category)) priority_order)
       UNKNOWN_ERROR"

text \<open>The handler after a history of earlier classifications.\<close>

fun handler_after :: "ErrorHandler \<Rightarrow> (exn \<times> string) list \<Rightarrow> ErrorHandler" where
  "handler_after h [] = h"
| "handler_after h ((e, u) # earlier) = handler_after (snd (categorize_error h e u)) earlier"

text \<open>
  The fixed rule makes DNS, TLS and parse failures non-retryable. A failure is
  retryable under a manager when neither the fixed rule nor the manager's own list
  rejects its category.
\<close>

definition fixed_non_retryable :: "ErrorCategory list" where
  "fixed_non_retryable = [DNS_ERROR, SSL_ERROR, PARSE_ERROR]"

definition retryable :: "RetryManager \<Rightarrow> exn \<Rightarrow> string \<Rightarrow> bool" where
  "retryable self e u =
     (let category = categorize (error_handler self) e u
      in category \<notin> set fixed_non_retryable
         \<and> category \<notin> set (non_retryable_errors (config self)))"

text \<open>
  The \<open>max_attempts\<close> in force for one detection: the override if one is given, else
  the detector's own.
\<close>

definition configured_max_attempts :: "WebsiteRendererDetector \<Rightarrow> int option \<Rightarrow> int" where
  "configured_max_attempts self max_retries =
     (case max_retries of
        None \<Rightarrow> max_attempts (config (retry_manager self))
      | Some n \<Rightarrow> n)"

section \<open>Sample inputs\<close>

text \<open>Concrete values at which the theorems below are evaluated.\<close>

definition plain_metrics :: "int \<Rightarrow> string list \<Rightarrow> DetectionMetrics" where
  "plain_metrics size_delta indicators =
     \<lparr>content_size_difference = size_delta, framework_indicators = indicators,
      dynamic_content_detected = False, javascript_execution_time = 0,
      dom_mutation_count = 0, http_response_time = 0, browser_load_time = 0\<rparr>"

definition failing_parser :: html_parser where
  "failing_parser doc = Inl (runtime_error ''parser failed'')"



definition teapot :: exn where
  "teapot = \<lparr>classes = [], type_name = ''Exception'', message = ''Server replied 418'',
             exn_response = None\<rparr>"

definition bad_input :: "exn_class list \<Rightarrow> string \<Rightarrow> exn" where
  "bad_input cs name = \<lparr>classes = cs, type_name = name, message = ''bad input'',
                        exn_response = None\<rparr>"

definition sample_manager :: "int \<Rightarrow> ErrorCategory list \<Rightarrow> RetryManager" where
  "sample_manager n rejected =
     \<lparr>config = \<lparr>max_attempts = n, backoff_base = 1, backoff_multiplier = 2,
                non_retryable_errors = rejected\<rparr>,
      error_handler = \<lparr>logged = []\<rparr>, retry_histories = Map.empty\<rparr>"

definition failure :: "exn_class list \<Rightarrow> string \<Rightarrow> exn" where
  "failure cs name = \<lparr>classes = cs, type_name = name, message = ''x'', exn_response = None\<rparr>"

definition sample_detector :: WebsiteRendererDetector where
  "sample_detector = \<lparr>retry_manager = sample_manager 3 [DNS_ERROR, SSL_ERROR]\<rparr>"

definition offline_world :: detection_world where
  "offline_world =
     \<lparr>parser = failing_parser,
      visits = (\<lambda>k. \<lparr>http_get = Inl (failure [socket_gaierror] ''gaierror''),
                      webdriver = Inl (failure [WebDriverException] ''WebDriverException''),
                      page_source = '''', detect_frameworks = Inr []\<rparr>),
      restart_failure = None\<rparr>"

section \<open>Auxiliary facts\<close>

lemmas float_eval =
  py_float_def fadd_def round_double_def quantum_def exponent_def pow2_def
  round_half_even_def exponent_up.simps exponent_down.simps Let_def

lemma any_modern_Nil: "\<not> any_modern []"
  by (simp add: any_modern_def)

lemma py_float_0: "py_float 0 = 0"
  by (simp add: py_float_def round_double_def)

lemma py_float_1: "py_float 1 = 1"
  by (simp add: float_eval)

lemma foldl_fadd_if:
  "foldl fadd s (if c then xs else ys) = (if c then foldl fadd s xs else foldl fadd s ys)"
  by simp

lemma framework_part:
  "(if any_modern found then fadd (if found \<noteq> [] then fadd s a else s) b
    else (if found \<noteq> [] then fadd s a else s)) =
   (if found \<noteq> [] then (if any_modern found then fadd (fadd s a) b else fadd s a) else s)"
  by (cases found) (simp_all add: any_modern_Nil)

lemma float_sum_score_terms:
  "float_sum (score_terms found size_delta dynamic_flag mutations indicators) =
     foldl fadd
       (foldl fadd
         (foldl fadd
           (foldl fadd
             (if found \<noteq> [] then (if any_modern found
                  then fadd (fadd (py_float 0) (py_float (4 / 10))) (py_float (1 / 10))
                  else fadd (py_float 0) (py_float (4 / 10))) else py_float 0)
             (bracket size_delta
               [(2000, py_float (3 / 10)), (1000, py_float (2 / 10)), (500, py_float (1 / 10))]))
           (if dynamic_flag then [py_float (2 / 10)] else []))
         (bracket mutations
            [(20, py_float (2 / 10)), (10, py_float (1 / 10)), (5, py_float (5 / 100))]))
       (if indicators \<noteq> [] then [py_float (1 / 10)] else [])"
proof -
  have optional: "foldl fadd s (if c then [w] else []) = (if c then fadd s w else s)"
    for s c w
    by simp
  show ?thesis
    unfolding float_sum_def score_terms_def foldl_append
    by (simp only: optional framework_part)
qed

text \<open>
  Floating-point sums are not the decimal sums: \<^verbatim>\<open>0.2 + 0.1\<close> is the binary64 number
  above \<^verbatim>\<open>0.3\<close>, so a score made of these two weights is not \<open>\<le> 0.3\<close>.
\<close>

lemma fadd_02_01_above_03: "py_float (3 / 10) < fadd (py_float (2 / 10)) (py_float (1 / 10))"
  by (simp add: float_eval)

section \<open>Rendering classifier: the claims\<close>

lemma score_float_sum:
  "calculate_weighted_score metrics found dynamic_detected mutation_count =
     float_score found (content_size_difference metrics) dynamic_detected mutation_count
       (framework_indicators metrics)"
  unfolding float_score_def float_sum_score_terms calculate_weighted_score_def Let_def
  by (simp add: foldl_fadd_if split del: if_split cong: if_cong)

text \<open>
  The floating-point score stays within one unit in the last place of the decimal sum.
  The cases are the weights earned; each is evaluated.
\<close>

lemma float_score_near_decimal:
  "\<bar>float_score found size_delta dynamic_flag mutations indicators
     - decimal_score found size_delta dynamic_flag mutations indicators\<bar> \<le> 1 / 2 ^ 52"
  unfolding float_score_def decimal_score_def py_float_1
  by (cases "found = []"; cases "any_modern found"; cases dynamic_flag; cases "indicators = []")
     (simp_all add: float_sum_def score_terms_def decimal_terms_def py_float_0 any_modern_Nil,
      simp_all add: float_eval)








text \<open>
  Claim C2, as stated, fails: the score is not the sum of the named weights where the
  floating-point additions round. A size delta of 1500 with one structural indicator
  earns 0.2 and 0.1; the code returns the float above 0.3, not 0.3.
\<close>

theorem calculate_weighted_score_counterexample:
  "calculate_weighted_score (plain_metrics 1500 [''data-react'']) [] False 0
     = 5404319552844596 / 18014398509481984
   \<and> spec_score [] 1500 False 0 [''data-react''] = 5404319552844595 / 18014398509481984
   \<and> calculate_weighted_score (plain_metrics 1500 [''data-react'']) [] False 0
       \<noteq> spec_score [] 1500 False 0 [''data-react'']"
proof -
  have code: "calculate_weighted_score (plain_metrics 1500 [''data-react'']) [] False 0
                = 5404319552844596 / 18014398509481984"
    by (simp add: calculate_weighted_score_def plain_metrics_def py_float_0)
       (simp add: float_eval)
  have spec: "spec_score [] 1500 False 0 [''data-react''] = 5404319552844595 / 18014398509481984"
    by (simp add: spec_score_def decimal_score_def decimal_terms_def any_modern_Nil)
       (simp add: float_eval)
  show ?thesis
    unfolding code spec by simp
qed

text \<open>
  Claim C2, amended. The weighted score is the sum of the weights that the signals earn
  (0.4 for any framework and 0.1 more for a modern one; one of 0.3, 0.2, 0.1 for a size
  delta above 2000, 1000, 500; 0.2 for dynamic content; one of 0.2, 0.1, 0.05 for a
  mutation count above 20, 10, 5; 0.1 for structural indicators), added from the left in
  this order in binary64 floating point and capped at 1.0. It differs from the decimal
  sum, capped at 1, by at most \<open>2\<^sup>-\<^sup>5\<^sup>2\<close>. A size delta of 2500 with no other signal
  scores exactly the float 0.3.
\<close>

theorem calculate_weighted_score_float_sum:
  "calculate_weighted_score metrics found dynamic_detected mutation_count =
     float_score found (content_size_difference metrics) dynamic_detected mutation_count
       (framework_indicators metrics)
   \<and> \<bar>calculate_weighted_score metrics found dynamic_detected mutation_count
        - decimal_score found (content_size_difference metrics) dynamic_detected mutation_count
            (framework_indicators metrics)\<bar> \<le> 1 / 2 ^ 52
   \<and> calculate_weighted_score metrics found dynamic_detected mutation_count \<le> 1
   \<and> calculate_weighted_score
        (metrics\<lparr>content_size_difference := 2500, framework_indicators := []\<rparr>) [] False 0
      = py_float (3 / 10)"
proof (intro conjI)
  show "calculate_weighted_score metrics found dynamic_detected mutation_count =
     float_score found (content_size_difference metrics) dynamic_detected mutation_count
       (framework_indicators metrics)"
    by (rule score_float_sum)
  show "\<bar>calculate_weighted_score metrics found dynamic_detected mutation_count
        - decimal_score found (content_size_difference metrics) dynamic_detected mutation_count
            (framework_indicators metrics)\<bar> \<le> 1 / 2 ^ 52"
    unfolding score_float_sum by (rule float_score_near_decimal)
  show "calculate_weighted_score metrics found dynamic_detected mutation_count \<le> 1"
    by (simp add: calculate_weighted_score_def Let_def py_float_1)
  show "calculate_weighted_score
        (metrics\<lparr>content_size_difference := 2500, framework_indicators := []\<rparr>) [] False 0
      = py_float (3 / 10)"
    by (simp add: calculate_weighted_score_def py_float_0) (simp add: float_eval)
qed

theorem calculate_weighted_score_float_sum_witness:
  "calculate_weighted_score (plain_metrics 0 []) [''React''] False 0 = 1 / 2
   \<and> decimal_score [''React''] 0 False 0 [] = 1 / 2"
  using calculate_weighted_score_float_sum [of "plain_metrics 0 []" "[''React'']" False 0]
  by (simp add: plain_metrics_def float_score_def score_terms_def float_sum_def
        decimal_score_def decimal_terms_def any_modern_def modern_frameworks_def)
     (simp add: float_eval)





section \<open>Failure classifier: the claims\<close>

lemma isinstance_twice: "isinstance e [c, c] = isinstance e [c]"
  by (simp add: isinstance_def)

lemma categorize_error_rules: "fst (categorize_error h e u) = classify_by_rules e"
  by (simp add: categorize_error_def classify_by_rules_def priority_order_def rule_match_def
        type_or_phrase_match_def is_dns_error_def is_ssl_error_def is_timeout_error_def
        is_browser_error_def is_http_error_def is_parse_error_def is_network_error_def
        isinstance_twice Let_def)

lemma isinstance_classes:
  "set (classes e1) = set (classes e2) \<Longrightarrow> isinstance e1 cs = isinstance e2 cs"
  by (simp add: isinstance_def)

lemma classify_by_rules_cong:
  assumes "message e1 = message e2" and "set (classes e1) = set (classes e2)"
  shows "classify_by_rules e1 = classify_by_rules e2"
proof -
  have "rule_match c e1 = rule_match c e2" for c
    using assms(1) isinstance_classes [OF assms(2)]
    by (simp add: rule_match_def type_or_phrase_match_def)
  then show ?thesis
    by (simp add: classify_by_rules_def)
qed

lemmas classifier_eval =
  categorize_error_def is_dns_error_def is_ssl_error_def is_timeout_error_def
  is_browser_error_def is_http_error_def is_parse_error_def is_network_error_def
  isinstance_def any_in_def lower_def ord_def status_code_search_def is_digit_def is_word_def




text \<open>
  Claim C9, as stated, fails: two exceptions with the same message need not get the
  same category, because the rules also test the type. A \<^verbatim>\<open>ValueError\<close> and a plain
  exception, both saying \<^verbatim>\<open>bad input\<close>, are classified differently.
\<close>

theorem categorize_error_same_message_counterexample:
  "message (bad_input [ValueError] ''ValueError'') = message (bad_input [] ''Exception'')
   \<and> fst (categorize_error \<lparr>logged = []\<rparr> (bad_input [ValueError] ''ValueError'') '''')
       \<noteq> fst (categorize_error \<lparr>logged = []\<rparr> (bad_input [] ''Exception'') '''')"
  by (simp add: bad_input_def classifier_eval)

text \<open>
  Claim C9, amended. Two exceptions with the same message and the same outcome of every
  type test get the same category, and so the same retry decision, whatever was
  classified before with either handler and whatever the URL arguments are.
\<close>

theorem categorize_error_deterministic:
  assumes "message e1 = message e2" and "set (classes e1) = set (classes e2)"
  shows "fst (categorize_error (handler_after h1 earlier1) e1 u1)
           = fst (categorize_error (handler_after h2 earlier2) e2 u2)
         \<and> ErrorHandler_should_retry (fst (categorize_error (handler_after h1 earlier1) e1 u1))
           = ErrorHandler_should_retry (fst (categorize_error (handler_after h2 earlier2) e2 u2))"
  using classify_by_rules_cong [OF assms] by (simp add: categorize_error_rules)

theorem categorize_error_deterministic_witness:
  "message (bad_input [ValueError] ''ValueError'') = message (bad_input [ValueError, ValueError] ''E'')
   \<and> set (classes (bad_input [ValueError] ''ValueError''))
       = set (classes (bad_input [ValueError, ValueError] ''E''))
   \<and> fst (categorize_error (handler_after \<lparr>logged = []\<rparr> [(teapot, ''a''), (bad_input [] ''X'', ''b'')])
            (bad_input [ValueError] ''ValueError'') ''u'')
       = fst (categorize_error (handler_after \<lparr>logged = []\<rparr> [])
            (bad_input [ValueError, ValueError] ''E'') ''v'')"
proof -
  have m: "message (bad_input [ValueError] ''ValueError'')
             = message (bad_input [ValueError, ValueError] ''E'')"
    by (simp add: bad_input_def)
  have c: "set (classes (bad_input [ValueError] ''ValueError''))
             = set (classes (bad_input [ValueError, ValueError] ''E''))"
    by (simp add: bad_input_def)
  from m c categorize_error_deterministic [OF m c, THEN conjunct1] show ?thesis
    by (intro conjI)
qed

section \<open>Retry orchestrator: the claims\<close>

lemma should_retry_iff:
  "should_retry self category attempt =
     (attempt < max_attempts (config self)
      \<and> category \<notin> set fixed_non_retryable
      \<and> category \<notin> set (non_retryable_errors (config self)))"
  by (auto simp add: should_retry_def ErrorHandler_should_retry_def fixed_non_retryable_def)

lemma retry_loop_success:
  assumes "func calls = Inr v"
  shows "retry_loop self func u (attempt # rest) history calls last_exception =
           (Inr v, history\<lparr>total_attempts := attempt, success := True\<rparr>, Suc calls)"
  using assms by simp

lemma retry_loop_give_up:
  assumes "func calls = Inl e" and "\<not> retryable self e u"
  shows "retry_loop self func u (attempt # rest) history calls last_exception =
           (Inl e,
            (add_attempt (history\<lparr>total_attempts := attempt\<rparr>)
               \<lparr>attempt_number = attempt,
                error_category = categorize (error_handler self) e u,
                error_message = message e, delay_before_attempt = Finite 0\<rparr>)
              \<lparr>final_error :=
                 Some (ErrorCategory_value (categorize (error_handler self) e u) @ '': ''
                         @ message e)\<rparr>,
            Suc calls)"
  using assms by (simp add: retryable_def should_retry_iff Let_def)

lemma retry_loop_again:
  assumes "func calls = Inl e" and "retryable self e u"
    and "attempt < max_attempts (config self)"
    and "get_backoff_delay self attempt = Inr delay"
  shows "retry_loop self func u (attempt # rest) history calls last_exception =
           retry_loop self func u rest
             (add_attempt (history\<lparr>total_attempts := attempt\<rparr>)
                \<lparr>attempt_number = attempt,
                 error_category = categorize (error_handler self) e u,
                 error_message = message e, delay_before_attempt = delay\<rparr>)
             (Suc calls) (Some e)"
  using assms by (simp add: retryable_def should_retry_iff Let_def)

lemma upto_from_calls:
  "int calls < m \<Longrightarrow> [int calls + 1..m] = (int calls + 1) # [int (Suc calls) + 1..m]"
  by (simp add: upto_rec1 add.commute add.left_commute)

lemma retry_loop_succeeds:
  assumes "\<forall>k. calls \<le> k \<and> k < n \<longrightarrow> (\<exists>e. func k = Inl e \<and> retryable self e u)"
    and "func n = Inr v"
    and "calls \<le> n"
    and "int n < max_attempts (config self)"
    and "\<forall>a. int calls < a \<and> a \<le> int n \<longrightarrow> (\<exists>d. get_backoff_delay self a = Inr d)"
  shows "\<exists>h. retry_loop self func u [int calls + 1..max_attempts (config self)] history calls last_exception
               = (Inr v, h, Suc n)
             \<and> total_attempts h = int n + 1 \<and> success h
             \<and> final_error h = final_error history
             \<and> map attempt_number (attempts h)
                 = map attempt_number (attempts history) @ [int calls + 1..int n]"
  using assms
proof (induction "n - calls" arbitrary: calls history last_exception)
  case 0
  then have "calls = n"
    by simp
  with 0 show ?case
    by (simp add: upto_from_calls retry_loop_success)
next
  case (Suc d)
  then have below: "calls < n"
    by simp
  with Suc.prems obtain e where e: "func calls = Inl e" "retryable self e u"
    by blast
  from below Suc.prems obtain delay where delay: "get_backoff_delay self (int calls + 1) = Inr delay"
    by (metis add.commute int_Suc of_nat_less_iff zle_iff_zadd zless_add1_eq less_imp_le
          of_nat_le_iff Suc_leI lessI)
  let ?history =
    "add_attempt (history\<lparr>total_attempts := int calls + 1\<rparr>)
       \<lparr>attempt_number = int calls + 1,
        error_category = categorize (error_handler self) e u,
        error_message = message e, delay_before_attempt = delay\<rparr>"
  have step:
    "retry_loop self func u [int calls + 1..max_attempts (config self)] history calls last_exception
       = retry_loop self func u [int (Suc calls) + 1..max_attempts (config self)] ?history
           (Suc calls) (Some e)"
  proof -
    from below Suc.prems(4) have "int calls < max_attempts (config self)"
      by simp
    then have "[int calls + 1..max_attempts (config self)]
                 = (int calls + 1) # [int (Suc calls) + 1..max_attempts (config self)]"
      by (rule upto_from_calls)
    moreover from below Suc.prems(4) have "int calls + 1 < max_attempts (config self)"
      by simp
    note retry_loop_again [where func = func and calls = calls, OF e(1) e(2) this delay]
    ultimately show ?thesis
      by (simp only:)
  qed
  have "\<exists>h. retry_loop self func u [int (Suc calls) + 1..max_attempts (config self)] ?history
               (Suc calls) (Some e) = (Inr v, h, Suc n)
             \<and> total_attempts h = int n + 1 \<and> success h
             \<and> final_error h = final_error ?history
             \<and> map attempt_number (attempts h)
                 = map attempt_number (attempts ?history) @ [int (Suc calls) + 1..int n]"
  proof (rule Suc.hyps(1))
    show "d = n - Suc calls"
      using Suc.hyps(2) by simp
    show "\<forall>k. Suc calls \<le> k \<and> k < n \<longrightarrow> (\<exists>e. func k = Inl e \<and> retryable self e u)"
      using Suc.prems(1) by simp
    show "func n = Inr v"
      by (rule Suc.prems(2))
    show "Suc calls \<le> n"
      using below by simp
    show "int n < max_attempts (config self)"
      by (rule Suc.prems(4))
    show "\<forall>a. int (Suc calls) < a \<and> a \<le> int n \<longrightarrow> (\<exists>d. get_backoff_delay self a = Inr d)"
      using Suc.prems(5) by simp
  qed
  then obtain h where h:
    "retry_loop self func u [int (Suc calls) + 1..max_attempts (config self)] ?history
       (Suc calls) (Some e) = (Inr v, h, Suc n)"
    "total_attempts h = int n + 1" "success h" "final_error h = final_error ?history"
    "map attempt_number (attempts h)
       = map attempt_number (attempts ?history) @ [int (Suc calls) + 1..int n]"
    by blast
  have range: "[int calls + 1..int n] = (int calls + 1) # [int (Suc calls) + 1..int n]"
    using below by (simp add: upto_from_calls)
  show ?case
    unfolding step using h by (simp add: add_attempt_def range)
qed

text \<open>
  Whatever the operation does, the attempt number that the history ends with is the
  number of calls made, and the calls do not exceed the list of attempts.
\<close>

lemma retry_loop_counts:
  assumes "retry_loop self func u [int calls + 1..m] history calls last_exception = (outcome, h, c)"
    and "total_attempts history = int calls"
  shows "total_attempts h = int c \<and> calls \<le> c \<and> int c \<le> max (int calls) m
         \<and> (int calls < m \<longrightarrow> calls < c)"
  using assms
proof (induction "nat (m - int calls)" arbitrary: calls history last_exception)
  case 0
  then have "[int calls + 1..m] = []"
    by simp
  with 0 show ?case
    by (simp split: option.splits)
next
  case (Suc d)
  then have below: "int calls < m"
    by simp
  let ?attempt = "int calls + 1"
  note loop = Suc.prems(1) [unfolded upto_from_calls [OF below] retry_loop.simps Let_def]
  show ?case
  proof (cases "func calls")
    case (Inr v)
    with loop Suc.prems(2) below show ?thesis
      by auto
  next
    case (Inl e)
    let ?category = "categorize (error_handler self) e u"
    show ?thesis
    proof (cases "should_retry self ?category ?attempt \<and> ?attempt < max_attempts (config self)")
      case False
      with loop Inl below show ?thesis
        by (auto simp add: add_attempt_def split: if_splits)
    next
      case True
      show ?thesis
      proof (cases "get_backoff_delay self ?attempt")
        case raised: (Inl e')
        with loop Inl True below show ?thesis
          by auto
      next
        case (Inr delay)
        let ?history =
          "add_attempt (history\<lparr>total_attempts := ?attempt\<rparr>)
             \<lparr>attempt_number = ?attempt, error_category = ?category,
              error_message = message e, delay_before_attempt = delay\<rparr>"
        from loop Inl True Inr
        have rest: "retry_loop self func u [int (Suc calls) + 1..m] ?history (Suc calls) (Some e)
                      = (outcome, h, c)"
          by simp
        have "total_attempts h = int c \<and> Suc calls \<le> c \<and> int c \<le> max (int (Suc calls)) m
              \<and> (int (Suc calls) < m \<longrightarrow> Suc calls < c)"
        proof (rule Suc.hyps(1) [OF _ rest])
          show "d = nat (m - int (Suc calls))"
            using Suc.hyps(2) by simp
          show "total_attempts ?history = int (Suc calls)"
            by (simp add: add_attempt_def)
        qed
        with below show ?thesis
          by auto
      qed
    qed
  qed
qed

lemma execute_with_retry_counts:
  assumes "execute_with_retry self func args = (outcome, self', c)"
  shows "config self' = config self \<and> error_handler self' = error_handler self
         \<and> (\<exists>h. get_retry_history self' (history_key args) = Some h \<and> total_attempts h = int c)
         \<and> int c \<le> max 0 (max_attempts (config self))
         \<and> (1 \<le> max_attempts (config self) \<longrightarrow> 1 \<le> c)"
proof -
  let ?history = "\<lparr>url = history_key args, total_attempts = 0, success = False,
                    final_error = None, attempts = [], total_retry_time = Finite 0\<rparr>"
  obtain out h calls where loop:
    "retry_loop self func (history_key args) [int 0 + 1..max_attempts (config self)] ?history 0 None
       = (out, h, calls)"
    by (cases "retry_loop self func (history_key args) [int 0 + 1..max_attempts (config self)]
                 ?history 0 None") auto
  from retry_loop_counts [OF loop] have counts:
    "total_attempts h = int calls" "int calls \<le> max 0 (max_attempts (config self))"
    "0 < max_attempts (config self) \<longrightarrow> 0 < calls"
    by simp_all
  from loop assms have "outcome = out" "c = calls"
    "self' = self\<lparr>retry_histories := (retry_histories self)(history_key args \<mapsto> h)\<rparr>"
    by (simp_all add: execute_with_retry_def Let_def)
  with counts show ?thesis
    by (auto simp add: get_retry_history_def)
qed

text \<open>
  Claim C5. If the first failure of the operation falls into a category that the fixed
  rule (DNS, TLS, parse) or the manager's own list rejects, then for every
  \<open>max_attempts\<close> of at least 1 the operation is called exactly once, the failure is
  what \<^verbatim>\<open>execute_with_retry\<close> raises, and the history records one attempt and the
  final error.
\<close>

theorem execute_with_retry_non_retryable:
  assumes "func 0 = Inl e"
    and "1 \<le> max_attempts (config self)"
    and "\<not> retryable self e (history_key args)"
  shows "\<exists>self'. execute_with_retry self func args = (Inl e, self', 1)
           \<and> config self' = config self
           \<and> (\<exists>h. get_retry_history self' (history_key args) = Some h
                 \<and> total_attempts h = 1 \<and> \<not> success h
                 \<and> map attempt_number (attempts h) = [1]
                 \<and> final_error h =
                     Some (ErrorCategory_value
                             (categorize (error_handler self) e (history_key args))
                           @ '': '' @ message e))"
proof -
  from assms(2) have "[1..max_attempts (config self)] = 1 # [2..max_attempts (config self)]"
    by (simp add: upto_rec1)
  then show ?thesis
    using assms(1, 3)
    by (simp add: execute_with_retry_def retry_loop_give_up add_attempt_def
          get_retry_history_def Let_def del: retry_loop.simps)
qed

theorem execute_with_retry_non_retryable_witness:
  "\<exists>self'. execute_with_retry (sample_manager 3 [DNS_ERROR, SSL_ERROR])
              (\<lambda>k. Inl (failure [socket_gaierror] ''gaierror'') :: exn + unit) [PyStr ''u'']
            = (Inl (failure [socket_gaierror] ''gaierror''), self', 1)
          \<and> config self' = config (sample_manager 3 [DNS_ERROR, SSL_ERROR])
          \<and> (\<exists>h. get_retry_history self' ''u'' = Some h
                \<and> total_attempts h = 1 \<and> \<not> success h
                \<and> map attempt_number (attempts h) = [1]
                \<and> final_error h = Some ''DNSError: x'')"
proof -
  have category:
    "categorize \<lparr>logged = []\<rparr> (failure [socket_gaierror] ''gaierror'') ''u'' = DNS_ERROR"
    by (simp add: categorize_def failure_def classifier_eval)
  have "\<not> retryable (sample_manager 3 [DNS_ERROR, SSL_ERROR])
            (failure [socket_gaierror] ''gaierror'') (history_key [PyStr ''u''])"
    by (simp add: retryable_def sample_manager_def history_key_def category
          fixed_non_retryable_def)
  note execute_with_retry_non_retryable
         [of "\<lambda>k. Inl (failure [socket_gaierror] ''gaierror'')"
             "failure [socket_gaierror] ''gaierror''"
             "sample_manager 3 [DNS_ERROR, SSL_ERROR]" "[PyStr ''u'']", OF refl _ this]
  moreover have "message (failure [socket_gaierror] ''gaierror'') = ''x''"
    by (simp add: failure_def)
  ultimately show ?thesis
    by (simp add: sample_manager_def history_key_def category)
qed

text \<open>
  Claim C4, as stated, fails in its last_exception part: the history holds one record per failed
  attempt, so after one failure and a success it has length 1, not 2.
\<close>

theorem execute_with_retry_history_counterexample:
  "(case execute_with_retry (sample_manager 3 [DNS_ERROR, SSL_ERROR])
           (\<lambda>k. if k < 1 then Inl (failure [Timeout] ''Timeout'') else Inr ()) [PyStr ''u'']
    of (outcome, self', calls) \<Rightarrow>
         outcome = Inr () \<and> calls = 2
         \<and> map_option (\<lambda>h. length (attempts h)) (get_retry_history self' ''u'') = Some 1)"
proof -
  have category:
    "categorize \<lparr>logged = []\<rparr> (failure [Timeout] ''Timeout'') ''u'' = TIMEOUT_ERROR"
    by (simp add: categorize_def failure_def classifier_eval)
  have range: "[1..3] = [1, 2, 3]"
    by (simp add: upto_rec1)
  have power: "float_of_real 1 = Finite 1"
    by (simp add: float_of_real_def float_limit_def float_eval)
  have product: "float_mul 1 1 = Finite 1"
    by (simp add: float_mul_def power)
  show ?thesis
    by (simp add: execute_with_retry_def sample_manager_def history_key_def range category
          should_retry_def ErrorHandler_should_retry_def get_backoff_delay_def
          RetryConfig_get_backoff_delay_def fpow_def power product add_attempt_def
          get_retry_history_def Let_def)
qed

text \<open>
  Claim C4, amended. Let the operation fail on each of its first \<open>N - 1\<close> calls with a
  retryable failure and succeed on call \<open>N\<close>, under a policy with \<open>max_attempts\<close> of at
  least \<open>N\<close> whose backoff delays for the attempts before \<open>N\<close> can be computed. Then
  \<^verbatim>\<open>execute_with_retry\<close> returns the success value after exactly \<open>N\<close> calls; the history
  under the operation's key is marked successful with \<open>N\<close> total attempts, so the retry
  count is \<open>N - 1\<close>; and the history holds the \<open>N - 1\<close> failed attempts, numbered from 1,
  not \<open>N\<close> records.
\<close>

theorem execute_with_retry_eventual_success:
  assumes "1 \<le> N"
    and "int N \<le> max_attempts (config self)"
    and "\<forall>k. k < N - 1 \<longrightarrow> (\<exists>e. func k = Inl e \<and> retryable self e (history_key args))"
    and "func (N - 1) = Inr v"
    and "\<forall>a. 1 \<le> a \<and> a < int N \<longrightarrow> (\<exists>d. get_backoff_delay self a = Inr d)"
  shows "\<exists>self'. execute_with_retry self func args = (Inr v, self', N)
           \<and> (\<exists>h. get_retry_history self' (history_key args) = Some h
                 \<and> success h \<and> total_attempts h = int N \<and> final_error h = None
                 \<and> map attempt_number (attempts h) = [1..int N - 1]
                 \<and> length (attempts h) = N - 1)
           \<and> retry_count_of (get_retry_history self' (history_key args)) = int N - 1"
proof -
  let ?history = "\<lparr>url = history_key args, total_attempts = 0, success = False,
                    final_error = None, attempts = [], total_retry_time = Finite 0\<rparr>"
  have "\<exists>h. retry_loop self func (history_key args) [int 0 + 1..max_attempts (config self)]
               ?history 0 None = (Inr v, h, Suc (N - 1))
             \<and> total_attempts h = int (N - 1) + 1 \<and> success h
             \<and> final_error h = final_error ?history
             \<and> map attempt_number (attempts h)
                 = map attempt_number (attempts ?history) @ [int 0 + 1..int (N - 1)]"
  proof (rule retry_loop_succeeds)
    show "\<forall>k. 0 \<le> k \<and> k < N - 1 \<longrightarrow> (\<exists>e. func k = Inl e \<and> retryable self e (history_key args))"
      using assms(3) by simp
    show "func (N - 1) = Inr v"
      by (rule assms(4))
    show "0 \<le> N - 1"
      by simp
    show "int (N - 1) < max_attempts (config self)"
      using assms(1, 2) by simp
    show "\<forall>a. int 0 < a \<and> a \<le> int (N - 1) \<longrightarrow> (\<exists>d. get_backoff_delay self a = Inr d)"
      using assms(1, 5) by auto
  qed
  then obtain h where h:
    "retry_loop self func (history_key args) [1..max_attempts (config self)] ?history 0 None
       = (Inr v, h, N)"
    "total_attempts h = int N" "success h" "final_error h = None"
    "map attempt_number (attempts h) = [1..int N - 1]"
    using assms(1) by (auto simp add: of_nat_diff)
  from h(5) have "length (attempts h) = length [1..int N - 1]"
    by (metis length_map)
  with assms(1) have "length (attempts h) = N - 1"
    by simp
  with h assms(1) show ?thesis
    by (simp add: execute_with_retry_def get_retry_history_def retry_count_of_def)
qed

theorem execute_with_retry_eventual_success_witness:
  "\<exists>self'. execute_with_retry (sample_manager 3 [DNS_ERROR, SSL_ERROR])
              (\<lambda>k. if k < 1 then Inl (failure [Timeout] ''Timeout'') else Inr ()) [PyStr ''u'']
            = (Inr (), self', 2)
          \<and> (\<exists>h. get_retry_history self' ''u'' = Some h
                \<and> success h \<and> total_attempts h = 2 \<and> final_error h = None
                \<and> map attempt_number (attempts h) = [1]
                \<and> length (attempts h) = 1)
          \<and> retry_count_of (get_retry_history self' ''u'') = 1"
proof -
  have category:
    "categorize \<lparr>logged = []\<rparr> (failure [Timeout] ''Timeout'') ''u'' = TIMEOUT_ERROR"
    by (simp add: categorize_def failure_def classifier_eval)
  have retryable:
    "\<forall>k :: nat. k < 2 - 1 \<longrightarrow>
       (\<exists>e. (if k < 1 then Inl (failure [Timeout] ''Timeout'') else (Inr () :: exn + unit)) = Inl e
            \<and> retryable (sample_manager 3 [DNS_ERROR, SSL_ERROR]) e (history_key [PyStr ''u'']))"
    by (simp add: retryable_def sample_manager_def history_key_def category
          fixed_non_retryable_def)
  have power: "float_of_real 1 = Finite 1"
    by (simp add: float_of_real_def float_limit_def float_eval)
  have delays:
    "\<forall>a. 1 \<le> a \<and> a < int 2 \<longrightarrow>
       (\<exists>d. get_backoff_delay (sample_manager 3 [DNS_ERROR, SSL_ERROR]) a = Inr d)"
  proof (intro allI impI)
    fix a :: int
    assume "1 \<le> a \<and> a < int 2"
    then have "a = 1"
      by simp
    then show "\<exists>d. get_backoff_delay (sample_manager 3 [DNS_ERROR, SSL_ERROR]) a = Inr d"
      by (simp add: get_backoff_delay_def RetryConfig_get_backoff_delay_def sample_manager_def
            fpow_def power)
  qed
  from execute_with_retry_eventual_success
         [of 2 "sample_manager 3 [DNS_ERROR, SSL_ERROR]"
             "\<lambda>k. if k < 1 then Inl (failure [Timeout] ''Timeout'') else Inr ()"
             "[PyStr ''u'']" "()", OF _ _ retryable _ delays]
  show ?thesis
    by (simp add: sample_manager_def history_key_def upto_rec1)
qed



end
